theory Spec2Isabelle
  imports Main "HOL-Library.Word" "HOL-Library.Sublist" "HOL-Library.Log_Nat" "HOL-Library.AList"
begin

section \<open>JavaScript strings\<close>

text \<open>
  A JavaScript string is a sequence of UTF-16 code units. The string methods used by
  \<^verbatim>\<open>tex2png-server.js\<close> are embedded as ECMA-262 defines them, on code units.
\<close>

type_synonym jsstring = "16 word list"

definition lit :: "string \<Rightarrow> jsstring" where
  "lit cs = map of_char cs"

text \<open>\<^verbatim>\<open>String.prototype.startsWith(searchString)\<close>, with the position left out (0).\<close>

definition startsWith :: "jsstring \<Rightarrow> jsstring \<Rightarrow> bool" where
  "startsWith s searchStr =
     (let len = length s; start = 0; searchLength = length searchStr in
      if searchLength = 0 then True
      else if start + searchLength > len then False
      else take searchLength (drop start s) = searchStr)"

text \<open>\<^verbatim>\<open>String.prototype.endsWith(searchString)\<close>, with the end position left out (the length).\<close>

definition endsWith :: "jsstring \<Rightarrow> jsstring \<Rightarrow> bool" where
  "endsWith s searchStr =
     (let len = length s; fin = len; searchLength = length searchStr in
      if searchLength = 0 then True
      else if searchLength > fin then False
      else take searchLength (drop (fin - searchLength) s) = searchStr)"

text \<open>
  \<^verbatim>\<open>String.prototype.slice(start, end)\<close>: a negative index counts from the end, both
  indices are clamped to the string, and an empty span gives the empty string.
\<close>

definition slice :: "jsstring \<Rightarrow> int \<Rightarrow> int \<Rightarrow> jsstring" where
  "slice s start fin =
     (let len = int (length s);
          from = (if start < 0 then max (len + start) 0 else min start len);
          to = (if fin < 0 then max (len + fin) 0 else min fin len)
      in if from \<ge> to then [] else take (nat (to - from)) (drop (nat from) s))"

text \<open>
  \<^verbatim>\<open>String.prototype.trim()\<close> removes the code units of WhiteSpace and LineTerminator
  from both ends.
\<close>

definition isWhiteSpace :: "16 word \<Rightarrow> bool" where
  "isWhiteSpace c =
     (c = 0x0009 \<or> c = 0x000A \<or> c = 0x000B \<or> c = 0x000C \<or> c = 0x000D \<or> c = 0x0020
      \<or> c = 0x00A0 \<or> c = 0x1680 \<or> (0x2000 \<le> c \<and> c \<le> 0x200A)
      \<or> c = 0x2028 \<or> c = 0x2029 \<or> c = 0x202F \<or> c = 0x205F \<or> c = 0x3000
      \<or> c = 0xFEFF)"

definition trim :: "jsstring \<Rightarrow> jsstring" where
  "trim s = rev (dropWhile isWhiteSpace (rev (dropWhile isWhiteSpace s)))"

section \<open>JavaScript numbers\<close>

text \<open>
  A JavaScript number is an IEEE 754 double. Every finite double is a whole multiple of
  2 to the power -1074, so a finite number is kept as its sign and its magnitude counted
  in that unit: \<open>Finite neg m\<close> is \<open>m\<close> units, negated when \<open>neg\<close> holds, and
  \<open>Finite True 0\<close> is the negative zero. A magnitude is that of a double when it is
  below 2 to the power 1024 (that is \<open>2 ^ 2098\<close> units) and has at most 53 significant
  bits.
\<close>

datatype jsnum = NaN | Infinite bool | Finite bool nat

definition unit_exp :: nat where
  "unit_exp = 1074"

definition overflow_bound :: nat where
  "overflow_bound = 2 ^ 2098"

definition representable :: "nat \<Rightarrow> bool" where
  "representable m = (m < overflow_bound \<and> 2 ^ (floorlog 2 m - 53) dvd m)"

fun is_double :: "jsnum \<Rightarrow> bool" where
  "is_double NaN = True"
| "is_double (Infinite _) = True"
| "is_double (Finite _ m) = representable m"

text \<open>
  Rounding an exact magnitude to 53 significant bits, to nearest, ties to the even
  significand; a result of \<open>2 ^ 2098\<close> units or more is an infinity.
\<close>

definition round_units :: "nat \<Rightarrow> nat" where
  "round_units m =
     (let sh = floorlog 2 m - 53; q = m div 2 ^ sh; r = m mod 2 ^ sh
      in (if 2 * r < 2 ^ sh \<or> (2 * r = 2 ^ sh \<and> even q) then q else q + 1) * 2 ^ sh)"

definition number_of_units :: "bool \<Rightarrow> nat \<Rightarrow> jsnum" where
  "number_of_units neg m =
     (let r = round_units m in if r \<ge> overflow_bound then Infinite neg else Finite neg r)"

definition signed_units :: "bool \<Rightarrow> nat \<Rightarrow> int" where
  "signed_units neg m = (if neg then - int m else int m)"

text \<open>\<^verbatim>\<open>Number::add\<close> of ECMA-262, the \<^verbatim>\<open>+\<close> of two numbers.\<close>

fun js_add :: "jsnum \<Rightarrow> jsnum \<Rightarrow> jsnum" where
  "js_add NaN _ = NaN"
| "js_add _ NaN = NaN"
| "js_add (Infinite a) (Infinite b) = (if a = b then Infinite a else NaN)"
| "js_add (Infinite a) (Finite _ _) = Infinite a"
| "js_add (Finite _ _) (Infinite b) = Infinite b"
| "js_add (Finite a m) (Finite b n) =
     (if m = 0 \<and> n = 0 then Finite (a \<and> b) 0
      else let x = signed_units a m + signed_units b n
           in if x = 0 then Finite False 0 else number_of_units (x < 0) (nat \<bar>x\<bar>))"

text \<open>The number value of a whole number with a sign, and of a numeric literal.\<close>

definition number_of_nat :: "bool \<Rightarrow> nat \<Rightarrow> jsnum" where
  "number_of_nat neg k =
     (if k = 0 then Finite neg 0 else number_of_units neg (k * 2 ^ unit_exp))"

definition jsnat :: "nat \<Rightarrow> jsnum" where
  "jsnat k = number_of_nat False k"

text \<open>The mathematical value of a number; both zeros have the value 0.\<close>

datatype numeric = NotNumber | MinusInf | PlusInf | Rational rat

fun number_value :: "jsnum \<Rightarrow> numeric" where
  "number_value NaN = NotNumber"
| "number_value (Infinite neg) = (if neg then MinusInf else PlusInf)"
| "number_value (Finite neg m) =
     Rational ((if neg then - 1 else 1) * of_nat m / 2 ^ unit_exp)"

text \<open>
  \<^verbatim>\<open>parseInt(string)\<close> with no radix: leading white space is skipped, a sign is read, a
  \<^verbatim>\<open>0x\<close> prefix selects radix 16, and the longest run of digits is the value; no digit
  gives \<^verbatim>\<open>NaN\<close>. The exact value is rounded to a double.
\<close>

definition digit_value :: "16 word \<Rightarrow> nat option" where
  "digit_value c =
     (if 0x30 \<le> c \<and> c \<le> 0x39 then Some (unat c - 0x30)
      else if 0x61 \<le> c \<and> c \<le> 0x7A then Some (unat c - 0x61 + 10)
      else if 0x41 \<le> c \<and> c \<le> 0x5A then Some (unat c - 0x41 + 10)
      else None)"

definition is_digit :: "nat \<Rightarrow> 16 word \<Rightarrow> bool" where
  "is_digit R c = (case digit_value c of None \<Rightarrow> False | Some d \<Rightarrow> d < R)"

definition parseInt :: "jsstring \<Rightarrow> jsnum" where
  "parseInt string =
     (let S = dropWhile isWhiteSpace string;
          neg = startsWith S (lit ''-'');
          S1 = (if startsWith S (lit ''+'') \<or> startsWith S (lit ''-'') then drop 1 S else S);
          hex = (startsWith S1 (lit ''0x'') \<or> startsWith S1 (lit ''0X''));
          R = (if hex then 16 else 10);
          S2 = (if hex then drop 2 S1 else S1);
          Z = takeWhile (is_digit R) S2
      in if Z = [] then NaN
         else number_of_nat neg (foldl (\<lambda>n c. n * R + the (digit_value c)) 0 Z))"

section \<open>JavaScript values\<close>

text \<open>
  The values a parsed JSON text can hold, and \<^verbatim>\<open>undefined\<close> for a property that is
  absent. An object is the list of its own properties, each name once.
\<close>

datatype jsval = JUndefined | JNull | JBool bool | JNum jsnum | JStr jsstring
  | JArr "jsval list" | JObj "(jsstring \<times> jsval) list"

text \<open>\<^verbatim>\<open>ToBoolean\<close>: what \<^verbatim>\<open>!v\<close> and \<^verbatim>\<open>if (v)\<close> test.\<close>

fun ToBoolean :: "jsval \<Rightarrow> bool" where
  "ToBoolean JUndefined = False"
| "ToBoolean JNull = False"
| "ToBoolean (JBool b) = b"
| "ToBoolean (JNum NaN) = False"
| "ToBoolean (JNum (Infinite _)) = True"
| "ToBoolean (JNum (Finite _ m)) = (m \<noteq> 0)"
| "ToBoolean (JStr s) = (s \<noteq> [])"
| "ToBoolean (JArr _) = True"
| "ToBoolean (JObj _) = True"

text \<open>
  A thrown value. Node's \<^verbatim>\<open>fs\<close>, MathJax, resvg-js and the language itself throw
  \<^verbatim>\<open>Error\<close> objects, which carry a message.
\<close>

datatype js_error = Error (message: jsstring)

text \<open>
  How a call can fail. Code of the language itself throws; a call into a library throws
  or, inside native code, aborts the process. An abort is not an exception: no
  \<^verbatim>\<open>catch\<close> sees it, and nothing of the process runs after it.
\<close>

datatype failure = Thrown js_error | Abort

definition thrown :: "js_error + 'a \<Rightarrow> failure + 'a" where
  "thrown r = (case r of Inl e \<Rightarrow> Inl (Thrown e) | Inr x \<Rightarrow> Inr x)"

definition and_then :: "'e + 'a \<Rightarrow> ('a \<Rightarrow> 'e + 'c) \<Rightarrow> 'e + 'c" where
  "and_then r f = (case r of Inl e \<Rightarrow> Inl e | Inr x \<Rightarrow> f x)"

text \<open>
  \<^verbatim>\<open>Number(v)\<close>. On \<^verbatim>\<open>undefined\<close>, \<^verbatim>\<open>null\<close>, a boolean and a number the result is fixed
  here; on a string, an array or an object it is what the language's string-to-number
  and to-primitive conversions give (they can throw on an object), taken as the
  parameter \<open>other\<close>.
\<close>

fun Number_js :: "(jsval \<Rightarrow> js_error + jsnum) \<Rightarrow> jsval \<Rightarrow> js_error + jsnum" where
  "Number_js other JUndefined = Inr NaN"
| "Number_js other JNull = Inr (Finite False 0)"
| "Number_js other (JBool b) = Inr (if b then jsnat 1 else Finite False 0)"
| "Number_js other (JNum x) = Inr x"
| "Number_js other v = other v"

text \<open>
  The own enumerable properties an object spread copies from its source: those of an
  object, the elements of an array and the code units of a string under their decimal
  indices, and nothing for the other values. Each is set on the target in turn.
\<close>

fun decimal :: "nat \<Rightarrow> jsstring" where
  "decimal n =
     (if n < 10 then [of_nat n + 0x30] else decimal (n div 10) @ [of_nat (n mod 10) + 0x30])"

declare decimal.simps [simp del]

fun ownEnumerable :: "jsval \<Rightarrow> (jsstring \<times> jsval) list" where
  "ownEnumerable (JObj kvs) = kvs"
| "ownEnumerable (JArr xs) = map (\<lambda>i. (decimal i, xs ! i)) [0..<length xs]"
| "ownEnumerable (JStr s) = map (\<lambda>i. (decimal i, JStr [s ! i])) [0..<length s]"
| "ownEnumerable _ = []"

definition spread :: "(jsstring \<times> jsval) list \<Rightarrow> jsval \<Rightarrow> (jsstring \<times> jsval) list" where
  "spread target source = fold (\<lambda>(k, v). AList.update k v) (ownEnumerable source) target"

definition get_own :: "jsval \<Rightarrow> jsstring \<Rightarrow> jsval option" where
  "get_own v name = map_of (ownEnumerable v) name"

section \<open>The content normalizer\<close>

record math_content =
  content :: jsstring
  display :: bool

definition isDisplayMath :: "jsstring \<Rightarrow> bool" where
  "isDisplayMath c =
     (startsWith c (lit ''$$'') \<and> endsWith c (lit ''$$'')
      \<or> startsWith c (lit [CHR 0x5C, CHR ''['']) \<and> endsWith c (lit [CHR 0x5C, CHR '']'']))"

definition isInlineMath :: "jsstring \<Rightarrow> bool" where
  "isInlineMath c =
     (startsWith c (lit ''$'') \<and> endsWith c (lit ''$'')
      \<or> startsWith c (lit [CHR 0x5C, CHR ''('']) \<and> endsWith c (lit [CHR 0x5C, CHR '')'']))"

definition no_delimiters_msg :: jsstring where
  "no_delimiters_msg = lit ''No recognized math delimiters found, treating as display math''"

text \<open>
  \<^verbatim>\<open>processMathContent\<close>, with the lines it writes to the console returned beside its
  result.
\<close>

definition processMathContent_io :: "jsstring \<Rightarrow> math_content \<times> jsstring list" where
  "processMathContent_io c =
     (if isDisplayMath c then
        (if startsWith c (lit ''$$'')
         then (\<lparr>content = trim (slice c 2 (- 2)), display = True\<rparr>, [])
         else (\<lparr>content = trim (slice c 2 (- 2)), display = True\<rparr>, []))
      else if isInlineMath c then
        (if startsWith c (lit ''$'')
         then (\<lparr>content = trim (slice c 1 (- 1)), display = False\<rparr>, [])
         else (\<lparr>content = trim (slice c 2 (- 2)), display = False\<rparr>, []))
      else (\<lparr>content = c, display = True\<rparr>, [no_delimiters_msg]))"

definition processMathContent :: "jsstring \<Rightarrow> math_content" where
  "processMathContent c = fst (processMathContent_io c)"

subsection \<open>What the claims call a delimiter pair\<close>

text \<open>
  The specification speaks of a string that both starts and ends with a delimiter, and of
  removing a fixed number of characters at each end. These are stated here with the list
  library's \<^const>\<open>prefix\<close> and \<^const>\<open>suffix\<close>, independently of the code's string methods.
\<close>

definition wrapped :: "jsstring \<Rightarrow> jsstring \<Rightarrow> jsstring \<Rightarrow> bool" where
  "wrapped opn cls s = (prefix opn s \<and> suffix cls s)"

definition strip_ends :: "nat \<Rightarrow> jsstring \<Rightarrow> jsstring" where
  "strip_ends n s = drop n (take (length s - n) s)"

definition no_delimiter_pair :: "jsstring \<Rightarrow> bool" where
  "no_delimiter_pair s =
     (\<not> wrapped (lit ''$$'') (lit ''$$'') s
      \<and> \<not> wrapped (lit [CHR 0x5C, CHR ''['']) (lit [CHR 0x5C, CHR '']'']) s
      \<and> \<not> wrapped (lit ''$'') (lit ''$'') s
      \<and> \<not> wrapped (lit [CHR 0x5C, CHR ''('']) (lit [CHR 0x5C, CHR '')'']) s)"

section \<open>The render request handler\<close>

text \<open>
  The handler of \<^verbatim>\<open>POST /render\<close>. What the file system, MathJax and resvg-js answer is
  given by a record of functions, one for each call the handler makes; each returns,
  throws or aborts the process; a call that never returns is not modelled. \<open>toNumber\<close>
  is the language's conversion of a string, an array or an object to a number, which
  returns or throws.
\<close>

record font_options =
  font_loadSystemFonts :: bool
  font_defaultFontFamily :: jsstring
  font_defaultFontSize :: jsnum

record resvg_options =
  font :: font_options

record ('n, 'r, 'i, 'b) services =
  readFileSync :: "jsval \<Rightarrow> failure + jsstring"
  toNumber :: "jsval \<Rightarrow> js_error + jsnum"
  tex2svg :: "jsstring \<Rightarrow> bool \<Rightarrow> failure + 'n"
  firstChild :: "'n \<Rightarrow> failure + 'n"
  setAttribute :: "'n \<Rightarrow> jsstring \<Rightarrow> jsval \<Rightarrow> failure + 'n"
  outerHTML :: "'n \<Rightarrow> failure + jsstring"
  Resvg :: "jsstring \<Rightarrow> resvg_options \<Rightarrow> failure + 'r"
  render :: "'r \<Rightarrow> failure + 'i"
  asPng :: "'i \<Rightarrow> failure + 'b"
  writeFileSync :: "jsval \<Rightarrow> 'b \<Rightarrow> failure + unit"

text \<open>
  What the handler does to the world is recorded in order: the file it reads, the lines
  it writes to the console, the typesetting and the rasterizer calls with their
  arguments, and the file it writes.
\<close>

datatype 'b event =
    ReadFile jsval
  | ConsoleLog jsstring
  | ConsoleError js_error
  | Typeset jsstring bool
  | Rasterize jsstring resvg_options
  | WriteFile jsval 'b

type_synonym ('a, 'b) io = "'b event list \<Rightarrow> (failure + 'a) \<times> 'b event list"

definition io_return :: "'a \<Rightarrow> ('a, 'b) io" where
  "io_return x = (\<lambda>t. (Inr x, t))"

definition io_throw :: "js_error \<Rightarrow> ('a, 'b) io" where
  "io_throw e = (\<lambda>t. (Inl (Thrown e), t))"

definition io_call :: "failure + 'a \<Rightarrow> ('a, 'b) io" where
  "io_call r = (\<lambda>t. (r, t))"

definition io_emit :: "'b event list \<Rightarrow> (unit, 'b) io" where
  "io_emit evs = (\<lambda>t. (Inr (), t @ evs))"

definition io_bind :: "('a, 'b) io \<Rightarrow> ('a \<Rightarrow> ('c, 'b) io) \<Rightarrow> ('c, 'b) io" where
  "io_bind m f = (\<lambda>t. case m t of (Inl e, t') \<Rightarrow> (Inl e, t') | (Inr x, t') \<Rightarrow> f x t')"

text \<open>\<^verbatim>\<open>try\<close> with \<^verbatim>\<open>catch\<close>: the handler runs on what was thrown, never on an abort.\<close>

definition io_catch :: "('a, 'b) io \<Rightarrow> (js_error \<Rightarrow> ('a, 'b) io) \<Rightarrow> ('a, 'b) io" where
  "io_catch m h =
     (\<lambda>t. case m t of
             (Inl (Thrown e), t') \<Rightarrow> h e t'
           | (Inl Abort, t') \<Rightarrow> (Inl Abort, t')
           | (Inr x, t') \<Rightarrow> (Inr x, t'))"

text \<open>
  The response: \<^verbatim>\<open>res.status(n).json({error: msg})\<close> or
  \<^verbatim>\<open>res.json({success: true, file: outFile})\<close>, whose status is 200.
\<close>

datatype response_json = ErrorJson jsstring | SuccessJson jsval

record response =
  status :: nat
  json :: response_json

text \<open>
  The four properties the handler reads from \<^verbatim>\<open>req.body\<close>, \<open>JUndefined\<close> when the
  body has no such property. The body itself is \<open>None\<close> when \<^verbatim>\<open>req.body\<close> is
  \<^verbatim>\<open>undefined\<close>; destructuring it then throws a \<^verbatim>\<open>TypeError\<close>.
\<close>

record render_body =
  inputFile :: jsval
  outFile :: jsval
  color :: jsval
  fontSize :: jsval

definition defaultColor :: jsstring where
  "defaultColor = lit ''#8ec07c''"

definition defaultFontSize :: jsnum where
  "defaultFontSize = jsnat 30"

definition or_default :: "jsval \<Rightarrow> jsval \<Rightarrow> jsval" where
  "or_default v d = (if v = JUndefined then d else v)"

definition destructure_TypeError :: js_error where
  "destructure_TypeError =
     Error (lit ''Cannot destructure property 'inputFile' of 'req.body' as it is undefined.'')"

text \<open>The lines under \<^verbatim>\<open>// Convert to SVG\<close>.\<close>

definition convert_to_svg ::
  "('n, 'r, 'i, 'b) services \<Rightarrow> math_content \<Rightarrow> jsval \<Rightarrow> failure + jsstring" where
  "convert_to_svg sv mc color' =
     and_then (tex2svg sv (content mc) (display mc)) (\<lambda>svg.
     and_then (firstChild sv svg) (\<lambda>innerSVG.
     and_then (setAttribute sv innerSVG (lit ''color'') color') (\<lambda>innerSVG'.
     outerHTML sv innerSVG')))"

text \<open>The object \<^verbatim>\<open>opts\<close>.\<close>

definition rasterizer_options ::
  "('n, 'r, 'i, 'b) services \<Rightarrow> jsval \<Rightarrow> bool \<Rightarrow> js_error + resvg_options" where
  "rasterizer_options sv fontSize' display' =
     and_then (Number_js (toNumber sv) fontSize') (\<lambda>n.
     Inr \<lparr>font = \<lparr>font_loadSystemFonts = False,
                  font_defaultFontFamily = lit ''Latin Modern Math'',
                  font_defaultFontSize = js_add n (if display' then jsnat 5 else jsnat 0)\<rparr>\<rparr>)"

text \<open>The lines from \<^verbatim>\<open>new Resvg\<close> to \<^verbatim>\<open>asPng\<close>.\<close>

definition convert_to_png ::
  "('n, 'r, 'i, 'b) services \<Rightarrow> jsstring \<Rightarrow> resvg_options \<Rightarrow> failure + 'b" where
  "convert_to_png sv svgString opts =
     and_then (Resvg sv svgString opts) (\<lambda>resvg.
     and_then (render sv resvg) (\<lambda>pngData.
     asPng sv pngData))"

text \<open>The handler from \<^verbatim>\<open>processMathContent(content)\<close> to the success response.\<close>

definition render_content ::
  "('n, 'r, 'i, 'b) services \<Rightarrow> jsstring \<Rightarrow> jsval \<Rightarrow> jsval \<Rightarrow> jsval \<Rightarrow> (response, 'b) io" where
  "render_content sv content' outFile' color' fontSize' =
     (case processMathContent_io content' of (mc, logged) \<Rightarrow>
        io_bind (io_emit (map ConsoleLog logged)) (\<lambda>_.
        io_bind (io_emit [Typeset (content mc) (display mc)]) (\<lambda>_.
        io_bind (io_call (convert_to_svg sv mc color')) (\<lambda>svgString.
        io_bind (io_call (thrown (rasterizer_options sv fontSize' (display mc)))) (\<lambda>opts.
        io_bind (io_emit [Rasterize svgString opts]) (\<lambda>_.
        io_bind (io_call (convert_to_png sv svgString opts)) (\<lambda>pngBuffer.
        io_bind (io_emit [WriteFile outFile' pngBuffer]) (\<lambda>_.
        io_bind (io_call (writeFileSync sv outFile' pngBuffer)) (\<lambda>_.
        io_return \<lparr>status = 200, json = SuccessJson outFile'\<rparr>)))))))))"

text \<open>The body of the \<^verbatim>\<open>try\<close> block.\<close>

definition render_try ::
  "('n, 'r, 'i, 'b) services \<Rightarrow> render_body option \<Rightarrow> (response, 'b) io" where
  "render_try sv body =
     (case body of
        None \<Rightarrow> io_throw destructure_TypeError
      | Some b \<Rightarrow>
          let inputFile' = inputFile b;
              outFile' = or_default (outFile b) (JStr (lit ''output.png''));
              color' = or_default (color b) (JStr defaultColor);
              fontSize' = or_default (fontSize b) (JNum defaultFontSize)
          in
          if \<not> ToBoolean inputFile' then
            io_return \<lparr>status = 400, json = ErrorJson (lit ''inputFile is required'')\<rparr>
          else
            io_bind (io_emit [ReadFile inputFile']) (\<lambda>_.
            case readFileSync sv inputFile' of
              Inl (Thrown err) \<Rightarrow>
                io_return \<lparr>status = 400,
                           json = ErrorJson (lit ''Error reading input file: '' @ message err)\<rparr>
            | Inl Abort \<Rightarrow> io_call (Inl Abort)
            | Inr raw \<Rightarrow> render_content sv (trim raw) outFile' color' fontSize'))"

text \<open>
  The handler: the \<^verbatim>\<open>try\<close> block with its \<^verbatim>\<open>catch\<close>. A result \<open>Inr\<close> is the response
  sent; \<open>Inl (Thrown e)\<close> would be an exception that leaves the handler; \<open>Inl Abort\<close> is
  the process killed inside a library call, with no response sent.
\<close>

definition render_handler ::
  "('n, 'r, 'i, 'b) services \<Rightarrow> render_body option \<Rightarrow> (response, 'b) io" where
  "render_handler sv body =
     io_catch (render_try sv body) (\<lambda>err.
       io_bind (io_emit [ConsoleError err]) (\<lambda>_.
       io_return \<lparr>status = 500, json = ErrorJson (message err)\<rparr>))"



section \<open>Starting the server\<close>

text \<open>
  The files are a map from path to content; a file operation fails only on a missing
  file. The console holds the lines written, each kept as its template and its
  argument.
\<close>

datatype console_line =
    ServerAlreadyRunning jsnum
  | MacrosFileNotFound jsstring
  | ErrorLoadingMacros jsstring

record world =
  files :: "jsstring \<rightharpoonup> jsstring"
  console :: "console_line list"

text \<open>
  What the platform fixes: the path \<^verbatim>\<open>PID_FILE\<close>, whether \<^verbatim>\<open>process.kill(pid, 0)\<close>
  returns (it throws otherwise), and \<^verbatim>\<open>JSON.parse\<close>.
\<close>

record platform =
  PID_FILE :: jsstring
  process_kill0 :: "jsnum \<Rightarrow> bool"
  JSON_parse :: "jsstring \<Rightarrow> js_error + jsval"

definition ENOENT :: "jsstring \<Rightarrow> js_error" where
  "ENOENT path = Error (lit ''ENOENT: no such file or directory, '' @ path)"

definition fs_existsSync :: "world \<Rightarrow> jsstring \<Rightarrow> bool" where
  "fs_existsSync w path = (files w path \<noteq> None)"

definition fs_readFileSync :: "world \<Rightarrow> jsstring \<Rightarrow> js_error + jsstring" where
  "fs_readFileSync w path = (case files w path of None \<Rightarrow> Inl (ENOENT path) | Some c \<Rightarrow> Inr c)"

definition fs_unlinkSync :: "world \<Rightarrow> jsstring \<Rightarrow> js_error + world" where
  "fs_unlinkSync w path =
     (case files w path of
        None \<Rightarrow> Inl (ENOENT path)
      | Some _ \<Rightarrow> Inr (w\<lparr>files := (files w)(path := None)\<rparr>))"

definition console_write :: "console_line \<Rightarrow> world \<Rightarrow> world" where
  "console_write l w = w\<lparr>console := console w @ [l]\<rparr>"

definition backslash :: char where
  "backslash = CHR 0x5C"

definition defaultMacros :: jsval where
  "defaultMacros =
     JObj [(lit ''bm'', JArr [JStr (lit (backslash # ''boldsymbol{#1}'')), JNum (jsnat 1)]),
           (lit ''tag'',
            JArr [JStr (lit (backslash # ''qquad ('' @ backslash # ''mathrm{#1})'')),
                  JNum (jsnat 1)])]"

text \<open>The configuration handed to \<^verbatim>\<open>require("mathjax").init\<close>.\<close>

record mathjax_config =
  loader_load :: "jsstring list"
  tex_packages :: "jsstring list"
  tex_macros :: jsval

definition init_config :: "jsval \<Rightarrow> mathjax_config" where
  "init_config customMacros =
     \<lparr>loader_load = [lit ''input/tex-base'', lit ''[tex]/noundefined'', lit ''[tex]/configmacros'',
                     lit ''[tex]/ams'', lit ''[tex]/mathtools'', lit ''[tex]/boldsymbol'',
                     lit ''output/svg''],
      tex_packages = [lit ''base'', lit ''noundefined'', lit ''configmacros'', lit ''ams'',
                      lit ''mathtools'', lit ''boldsymbol''],
      tex_macros = JObj (spread (spread [] defaultMacros) customMacros)\<rparr>"

text \<open>
  How \<^verbatim>\<open>startServer\<close> ends before anything asynchronous runs: it returns at once, the
  process exits, MathJax's \<^verbatim>\<open>init\<close> is called with a configuration, or an exception
  is left uncaught. What follows the initialization (the routes, the listener, the
  writing of the record file) runs later and is not part of this function's result.
\<close>

datatype start_result = Returned | Exited nat | MathJaxInit mathjax_config | Uncaught js_error

text \<open>\<^verbatim>\<open>startServer\<close> from \<^verbatim>\<open>// Load macros if specified\<close> on.\<close>

definition start_fresh :: "platform \<Rightarrow> jsstring option \<Rightarrow> world \<Rightarrow> start_result \<times> world" where
  "start_fresh pf macrosFile w =
     (case macrosFile of
        None \<Rightarrow> (MathJaxInit (init_config JUndefined), w)
      | Some f \<Rightarrow>
          if f = [] then (MathJaxInit (init_config JUndefined), w)
          else if \<not> fs_existsSync w f then (Exited 1, console_write (MacrosFileNotFound f) w)
          else (case and_then (fs_readFileSync w f) (JSON_parse pf) of
                  Inl err \<Rightarrow> (Exited 1, console_write (ErrorLoadingMacros (message err)) w)
                | Inr customMacros \<Rightarrow> (MathJaxInit (init_config customMacros), w)))"

definition startServer :: "platform \<Rightarrow> jsstring option \<Rightarrow> world \<Rightarrow> start_result \<times> world" where
  "startServer pf macrosFile w =
     (if fs_existsSync w (PID_FILE pf) then
        (case fs_readFileSync w (PID_FILE pf) of
           Inl e \<Rightarrow> (Uncaught e, w)
         | Inr recorded \<Rightarrow>
             let pid = parseInt recorded in
             if process_kill0 pf pid then (Returned, console_write (ServerAlreadyRunning pid) w)
             else (case fs_unlinkSync w (PID_FILE pf) of
                     Inl e \<Rightarrow> (Uncaught e, w)
                   | Inr w' \<Rightarrow> start_fresh pf macrosFile w'))
      else start_fresh pf macrosFile w)"

section \<open>Concrete inputs\<close>

text \<open>
  The inputs at which the theorems below are instantiated: services that read four
  small files, fail to typeset the content \<^verbatim>\<open>x\<close>, fail to rasterize the content \<^verbatim>\<open>z\<close>
  and refuse to write anywhere but \<^verbatim>\<open>output.png\<close>; the same services with a rasterizer
  whose native code aborts the process when it renders at a default font size of
  \<open>2 ^ 53\<close> (9007199254740992) or more; a macros file that redefines \<^verbatim>\<open>bm\<close> and adds
  \<^verbatim>\<open>R\<close>; a record file holding the process id 4242.
\<close>

definition sample_services ::
  "(jsstring, jsstring \<times> resvg_options, jsstring, jsstring) services" where
  "sample_services =
     \<lparr>readFileSync = (\<lambda>p. if p = JStr (lit ''eq.tex'') then Inr (lit ''$$E=mc^2$$  '')
                           else if p = JStr (lit ''in.tex'') then Inr (lit ''$x$'')
                           else if p = JStr (lit ''iny.tex'') then Inr (lit ''$y$'')
                           else if p = JStr (lit ''inz.tex'') then Inr (lit ''$z$'')
                           else Inl (Thrown (Error (lit ''ENOENT: no such file or directory'')))),
      toNumber = (\<lambda>v. Inr NaN),
      tex2svg = (\<lambda>c d. if c = lit ''x'' then Inl (Thrown (Error (lit ''typesetting failed'')))
                        else Inr c),
      firstChild = Inr,
      setAttribute = (\<lambda>n a v. Inr n),
      outerHTML = Inr,
      Resvg = (\<lambda>s opts. if s = lit ''z'' then Inl (Thrown (Error (lit ''SVG data parsing failed'')))
                          else Inr (s, opts)),
      render = (\<lambda>r. Inr (fst r)),
      asPng = Inr,
      writeFileSync = (\<lambda>p buf. if p = JStr (lit ''output.png'') then Inr ()
                               else Inl (Thrown (Error (lit ''EACCES: permission denied''))))\<rparr>"



definition request_for :: "string \<Rightarrow> jsval \<Rightarrow> jsval \<Rightarrow> render_body" where
  "request_for path out fs =
     \<lparr>inputFile = JStr (lit path), outFile = out, color = JUndefined, fontSize = fs\<rparr>"

definition user_bm :: "(jsstring \<times> jsval) list" where
  "user_bm = [(lit ''bm'', JArr [JStr (lit (backslash # ''mathbf{#1}'')), JNum (jsnat 1)]),
              (lit ''R'', JArr [JStr (lit (backslash # ''mathbb{R}'')), JNum (jsnat 0)])]"

definition macros_text :: jsstring where
  "macros_text =
     lit (''{'' @ [CHR 0x22] @ ''bm'' @ [CHR 0x22] @ '': ['' @ [CHR 0x22, backslash, backslash]
          @ ''mathbf{#1}'' @ [CHR 0x22] @ '', 1], '' @ [CHR 0x22] @ ''R'' @ [CHR 0x22] @ '': [''
          @ [CHR 0x22, backslash, backslash] @ ''mathbb{R}'' @ [CHR 0x22] @ '', 0]}'')"

definition sample_platform :: "bool \<Rightarrow> platform" where
  "sample_platform alive =
     \<lparr>PID_FILE = lit ''/opt/tex2png/tex2png-server.pid'',
      process_kill0 = (\<lambda>pid. alive \<and> pid = jsnat 4242),
      JSON_parse = (\<lambda>s. if s = macros_text then Inr (JObj user_bm)
                         else Inl (Error (lit ''Unexpected end of JSON input'')))\<rparr>"

definition sample_world :: world where
  "sample_world =
     \<lparr>files = [lit ''/opt/tex2png/tex2png-server.pid'' \<mapsto> lit ''4242'',
               lit ''macros.json'' \<mapsto> macros_text],
      console = []\<rparr>"

section \<open>Properties of the string methods\<close>

lemma lit_simps: "lit [] = []" "lit (c # cs) = of_char c # lit cs"
  by (simp_all add: lit_def)

lemma startsWith_prefix: "startsWith s p = prefix p s"
  by (auto simp: startsWith_def prefix_def Let_def) (metis append_take_drop_id)+

lemma endsWith_suffix: "endsWith s p = suffix p s"
  by (auto simp: endsWith_def suffix_def Let_def) (metis append_take_drop_id)+

lemma slice_strip: "0 < n \<Longrightarrow> slice s (int n) (- int n) = strip_ends n s"
proof -
  assume n: "0 < n"
  have eq: "nat (int (length s) - 2 * int n) = length s - (n + n)" by arith
  show ?thesis using n
    by (auto simp: slice_def strip_ends_def Let_def drop_take min_def max_def eq)
qed

lemma slice_2: "slice s 2 (- 2) = strip_ends 2 s"
  using slice_strip [of 2 s] by simp

lemma slice_1: "slice s 1 (- 1) = strip_ends 1 s"
  using slice_strip [of 1 s] by simp

lemma strip_ends_decomp:
  assumes "prefix p s" "suffix q s" "length p + length q \<le> length s"
    and "length p = n" "length q = n"
  shows "s = p @ strip_ends n s @ q"
proof -
  from assms(1) obtain r where r: "s = p @ r" by (auto simp: prefix_def)
  from assms(2) obtain l where l: "s = l @ q" by (auto simp: suffix_def)
  have len: "length p \<le> length l" using assms(3) l by simp
  have tk: "take (length s - n) s = l" using l assms(5) by simp
  have "p @ r = l @ q" using r l by simp
  then have "take (length p) (p @ r) = take (length p) (l @ q)" by simp
  then have "p = take (length p) l" using len by simp
  then have "l = p @ drop n l" using assms(4) by (metis append_take_drop_id)
  then have "l = p @ strip_ends n s" using tk by (simp add: strip_ends_def)
  with l show ?thesis by simp
qed

section \<open>Properties of the content normalizer\<close>

lemma isDisplayMath_wrapped:
  "isDisplayMath s =
     (wrapped (lit ''$$'') (lit ''$$'') s
      \<or> wrapped (lit [CHR 0x5C, CHR ''['']) (lit [CHR 0x5C, CHR '']'']) s)"
  by (simp add: isDisplayMath_def wrapped_def startsWith_prefix endsWith_suffix)

lemma isInlineMath_wrapped:
  "isInlineMath s =
     (wrapped (lit ''$'') (lit ''$'') s
      \<or> wrapped (lit [CHR 0x5C, CHR ''('']) (lit [CHR 0x5C, CHR '')'']) s)"
  by (simp add: isInlineMath_def wrapped_def startsWith_prefix endsWith_suffix)

lemma passthrough:
  "no_delimiter_pair s \<Longrightarrow>
     processMathContent_io s = (\<lparr>content = s, display = True\<rparr>, [no_delimiters_msg])"
  by (simp add: processMathContent_io_def isDisplayMath_wrapped isInlineMath_wrapped
      no_delimiter_pair_def)

lemma display_branch:
  "isDisplayMath s \<Longrightarrow>
     processMathContent_io s = (\<lparr>content = trim (strip_ends 2 s), display = True\<rparr>, [])"
  by (simp add: processMathContent_io_def slice_2)

lemma inline_dollar_branch:
  "\<not> isDisplayMath s \<Longrightarrow> wrapped (lit ''$'') (lit ''$'') s \<Longrightarrow>
     processMathContent_io s = (\<lparr>content = trim (strip_ends 1 s), display = False\<rparr>, [])"
  by (simp add: processMathContent_io_def slice_1 isInlineMath_wrapped startsWith_prefix
      wrapped_def)

lemmas eval_simps =
  processMathContent_def processMathContent_io_def isDisplayMath_def isInlineMath_def
  startsWith_def endsWith_def slice_def trim_def isWhiteSpace_def lit_simps

lemmas spec_simps =
  no_delimiter_pair_def wrapped_def strip_ends_def trim_def isWhiteSpace_def lit_simps
  suffix_to_prefix

text \<open>
  Claim C1, as amended. A string that matches none of the four delimiter patterns (it
  does not both start and end with \<^verbatim>\<open>$$\<close>, nor with \<^verbatim>\<open>\[\<close> and \<^verbatim>\<open>\]\<close>, nor with \<^verbatim>\<open>$\<close>,
  nor with \<^verbatim>\<open>\(\<close> and \<^verbatim>\<open>\)\<close>) is returned unchanged with display set; the plain
  string \<^verbatim>\<open>x\<close> is such a string. The string \<^verbatim>\<open>$$x$\<close> is not: it starts and ends with
  \<^verbatim>\<open>$\<close>, takes the inline branch and comes back as \<^verbatim>\<open>$x\<close> with display unset.
\<close>

theorem C1_passthrough_without_delimiters:
  "(no_delimiter_pair s \<longrightarrow> processMathContent s = \<lparr>content = s, display = True\<rparr>)
   \<and> no_delimiter_pair (lit ''x'')
   \<and> \<not> no_delimiter_pair (lit ''$$x$'')
   \<and> processMathContent (lit ''$$x$'') = \<lparr>content = lit ''$x'', display = False\<rparr>"
proof -
  have "no_delimiter_pair s \<longrightarrow> processMathContent s = \<lparr>content = s, display = True\<rparr>"
    by (simp add: processMathContent_def passthrough)
  moreover have "no_delimiter_pair (lit ''x'')"
    by (simp add: spec_simps)
  moreover have "\<not> no_delimiter_pair (lit ''$$x$'')"
    by (simp add: spec_simps)
  moreover have "processMathContent (lit ''$$x$'') = \<lparr>content = lit ''$x'', display = False\<rparr>"
    by (simp add: eval_simps)
  ultimately show ?thesis by blast
qed

theorem C1_passthrough_witness:
  "no_delimiter_pair (lit ''x'')
   \<and> processMathContent (lit ''x'') = \<lparr>content = lit ''x'', display = True\<rparr>"
  using C1_passthrough_without_delimiters [of "lit ''x''"] by blast

text \<open>
  Claim C1 as the specification states it fails at \<^verbatim>\<open>$$x$\<close>: the content is not
  returned unchanged, and display is not set.
\<close>

theorem C1_counterexample:
  "content (processMathContent (lit ''$$x$'')) \<noteq> lit ''$$x$''
   \<and> \<not> display (processMathContent (lit ''$$x$''))"
  by (simp add: eval_simps)

text \<open>
  Claim C2. A string of length at least 4 that both starts and ends with \<^verbatim>\<open>$$\<close> is
  the two delimiters around a middle part; the normalizer returns that middle part,
  trimmed, with display set.
\<close>

theorem C2_display_dollars:
  assumes "wrapped (lit ''$$'') (lit ''$$'') s" and "4 \<le> length s"
  shows "processMathContent s = \<lparr>content = trim (strip_ends 2 s), display = True\<rparr>
         \<and> s = lit ''$$'' @ strip_ends 2 s @ lit ''$$''"
proof -
  have "isDisplayMath s" using assms(1) by (simp add: isDisplayMath_wrapped)
  then have "processMathContent s = \<lparr>content = trim (strip_ends 2 s), display = True\<rparr>"
    by (simp add: processMathContent_def display_branch)
  moreover have "s = lit ''$$'' @ strip_ends 2 s @ lit ''$$''"
    using assms by (intro strip_ends_decomp) (simp_all add: wrapped_def lit_def)
  ultimately show ?thesis by simp
qed

theorem C2_display_dollars_witness:
  "wrapped (lit ''$$'') (lit ''$$'') (lit ''$$ a b $$'') \<and> 4 \<le> length (lit ''$$ a b $$'')
   \<and> processMathContent (lit ''$$ a b $$'') = \<lparr>content = lit ''a b'', display = True\<rparr>"
proof -
  have h1: "wrapped (lit ''$$'') (lit ''$$'') (lit ''$$ a b $$'')" by (simp add: spec_simps)
  have h2: "4 \<le> length (lit ''$$ a b $$'')" by (simp add: lit_simps)
  have "trim (strip_ends 2 (lit ''$$ a b $$'')) = lit ''a b''" by (simp add: spec_simps)
  with C2_display_dollars [OF h1 h2] h1 h2 show ?thesis by simp
qed

text \<open>
  Claim C3. A string that both starts and ends with \<^verbatim>\<open>$\<close> and is not a display string
  (wrapped neither in \<^verbatim>\<open>$$\<close> nor in \<^verbatim>\<open>\[\<close> and \<^verbatim>\<open>\]\<close>) comes back with one character
  removed at each end, trimmed, and display unset. When it has at least two characters
  it is the two delimiters around the part returned.
\<close>

theorem C3_inline_dollar:
  assumes "wrapped (lit ''$'') (lit ''$'') s"
    and "\<not> wrapped (lit ''$$'') (lit ''$$'') s"
    and "\<not> wrapped (lit [CHR 0x5C, CHR ''['']) (lit [CHR 0x5C, CHR '']'']) s"
  shows "processMathContent s = \<lparr>content = trim (strip_ends 1 s), display = False\<rparr>
         \<and> (2 \<le> length s \<longrightarrow> s = lit ''$'' @ strip_ends 1 s @ lit ''$'')"
proof -
  have "\<not> isDisplayMath s" using assms(2,3) by (simp add: isDisplayMath_wrapped)
  then have "processMathContent s = \<lparr>content = trim (strip_ends 1 s), display = False\<rparr>"
    using assms(1) by (simp add: processMathContent_def inline_dollar_branch)
  moreover have "s = lit ''$'' @ strip_ends 1 s @ lit ''$''" if "2 \<le> length s"
    using assms(1) that by (intro strip_ends_decomp) (simp_all add: wrapped_def lit_def)
  ultimately show ?thesis by simp
qed

theorem C3_inline_dollar_witness:
  "wrapped (lit ''$'') (lit ''$'') (lit ''$ x $'')
   \<and> \<not> wrapped (lit ''$$'') (lit ''$$'') (lit ''$ x $'')
   \<and> \<not> wrapped (lit [CHR 0x5C, CHR ''['']) (lit [CHR 0x5C, CHR '']'']) (lit ''$ x $'')
   \<and> 2 \<le> length (lit ''$ x $'')
   \<and> processMathContent (lit ''$ x $'') = \<lparr>content = lit ''x'', display = False\<rparr>
   \<and> lit ''$ x $'' = lit ''$'' @ strip_ends 1 (lit ''$ x $'') @ lit ''$''"
proof -
  have h1: "wrapped (lit ''$'') (lit ''$'') (lit ''$ x $'')" by (simp add: spec_simps)
  have h2: "\<not> wrapped (lit ''$$'') (lit ''$$'') (lit ''$ x $'')" by (simp add: spec_simps)
  have h3: "\<not> wrapped (lit [CHR 0x5C, CHR ''['']) (lit [CHR 0x5C, CHR '']'']) (lit ''$ x $'')"
    by (simp add: spec_simps)
  have h4: "2 \<le> length (lit ''$ x $'')" by (simp add: lit_simps)
  have "trim (strip_ends 1 (lit ''$ x $'')) = lit ''x''" by (simp add: spec_simps)
  with C3_inline_dollar [OF h1 h2 h3] h1 h2 h3 h4 show ?thesis by simp
qed

text \<open>
  Claim C4. On a string that matches none of the delimiter patterns the normalizer
  returns the same text with display set, so normalizing its own output again gives the
  same result.
\<close>

theorem C4_idempotent_without_delimiters:
  assumes "no_delimiter_pair s"
  shows "processMathContent s = \<lparr>content = s, display = True\<rparr>
         \<and> processMathContent (content (processMathContent s)) = processMathContent s"
proof -
  have "processMathContent s = \<lparr>content = s, display = True\<rparr>"
    using assms by (simp add: processMathContent_def passthrough)
  then show ?thesis by simp
qed

theorem C4_idempotent_witness:
  "no_delimiter_pair (lit ''E=mc^2'')
   \<and> processMathContent (lit ''E=mc^2'') = \<lparr>content = lit ''E=mc^2'', display = True\<rparr>
   \<and> processMathContent (content (processMathContent (lit ''E=mc^2'')))
       = processMathContent (lit ''E=mc^2'')"
proof -
  have h: "no_delimiter_pair (lit ''E=mc^2'')" by (simp add: spec_simps)
  from C4_idempotent_without_delimiters [OF h] h show ?thesis by simp
qed

text \<open>
  Claim C9. The strings \<^verbatim>\<open>$$\<close> and \<^verbatim>\<open>$$$\<close> start and end with \<^verbatim>\<open>$$\<close> (the two
  occurrences overlap), so both take the display branch; the slice is empty there, and
  the result is the empty content with display set. Nothing is written to the console,
  and the function is total, so no error is raised.
\<close>

theorem C9_short_dollar_strings:
  "isDisplayMath (lit ''$$'') \<and> isDisplayMath (lit ''$$$'')
   \<and> processMathContent_io (lit ''$$'') = (\<lparr>content = [], display = True\<rparr>, [])
   \<and> processMathContent_io (lit ''$$$'') = (\<lparr>content = [], display = True\<rparr>, [])
   \<and> processMathContent (lit ''$$'') = \<lparr>content = [], display = True\<rparr>
   \<and> processMathContent (lit ''$$$'') = \<lparr>content = [], display = True\<rparr>"
  by (simp add: eval_simps)

section \<open>Properties of the numbers\<close>

lemma round_units_exact: "2 ^ (floorlog 2 m - 53) dvd m \<Longrightarrow> round_units m = m"
  by (auto simp: round_units_def Let_def dvd_eq_mod_eq_0)

lemma number_of_units_exact: "representable m \<Longrightarrow> number_of_units neg m = Finite neg m"
  by (simp add: number_of_units_def representable_def round_units_exact)

lemma representable_0: "representable 0"
  by (simp add: representable_def overflow_bound_def)

lemma representable_scaled:
  assumes "k < 2 ^ 53"
  shows "representable (k * 2 ^ unit_exp)"
proof (cases "k = 0")
  case True then show ?thesis by (simp add: representable_0)
next
  case False
  then have fl: "floorlog 2 (k * 2 ^ unit_exp) = floorlog 2 k + unit_exp" by simp
  have "floorlog 2 k \<le> 53" using assms by (simp add: floorlog_le_iff)
  then have "floorlog 2 k + unit_exp - 53 \<le> unit_exp" by (simp add: unit_exp_def)
  then have "(2::nat) ^ (floorlog 2 k + unit_exp - 53) dvd 2 ^ unit_exp"
    by (rule le_imp_power_dvd)
  then have d: "(2::nat) ^ (floorlog 2 (k * 2 ^ unit_exp) - 53) dvd k * 2 ^ unit_exp"
    unfolding fl by (rule dvd_mult)
  have "k * 2 ^ unit_exp < 2 ^ 53 * 2 ^ unit_exp" using assms by simp
  also have "\<dots> \<le> overflow_bound"
    unfolding overflow_bound_def unit_exp_def power_add [symmetric]
    by (rule power_increasing) simp_all
  finally show ?thesis using d by (simp add: representable_def)
qed

lemma jsnat_exact: "k < 2 ^ 53 \<Longrightarrow> jsnat k = Finite False (k * 2 ^ unit_exp)"
  by (simp add: jsnat_def number_of_nat_def number_of_units_exact representable_scaled)

lemma jsnat_0: "jsnat 0 = Finite False 0"
  by (simp add: jsnat_def number_of_nat_def)

lemma js_add_finite_pos:
  assumes "representable (m + n)"
  shows "js_add (Finite False m) (Finite False n) = Finite False (m + n)"
proof (cases "m = 0 \<and> n = 0")
  case True then show ?thesis by simp
next
  case False
  have x: "signed_units False m + signed_units False n = int (m + n)"
    by (simp add: signed_units_def)
  have nz: "int (m + n) \<noteq> 0" using False by linarith
  show ?thesis using False assms nz
    by (simp add: Let_def x number_of_units_exact del: of_nat_add)
qed

lemma js_add_jsnat:
  assumes "a + b < 2 ^ 53"
  shows "js_add (jsnat a) (jsnat b) = jsnat (a + b)"
proof -
  have a: "a < 2 ^ 53" and b: "b < 2 ^ 53" using assms by simp_all
  have "representable (a * 2 ^ unit_exp + b * 2 ^ unit_exp)"
    using representable_scaled [OF assms] by (simp add: distrib_right)
  then have "js_add (Finite False (a * 2 ^ unit_exp)) (Finite False (b * 2 ^ unit_exp))
      = Finite False (a * 2 ^ unit_exp + b * 2 ^ unit_exp)"
    by (rule js_add_finite_pos)
  then show ?thesis
    by (simp only: jsnat_exact [OF a] jsnat_exact [OF b] jsnat_exact [OF assms] distrib_right)
qed

lemma js_add_zero:
  assumes "is_double x"
  shows "js_add x (jsnat 0) = (if x = Finite True 0 then Finite False 0 else x)"
proof (cases x)
  case (Finite neg m)
  then have "representable m" using assms by simp
  then show ?thesis using Finite
    by (cases neg) (auto simp: jsnat_0 signed_units_def number_of_units_exact)
qed (simp_all add: jsnat_0)

lemma js_add_zero_value:
  "is_double x \<Longrightarrow> number_value (js_add x (jsnat 0)) = number_value x"
  by (simp add: js_add_zero)




lemma parseInt_example: "parseInt (lit ''4242'') = jsnat 4242"
  by (simp add: parseInt_def lit_simps startsWith_def isWhiteSpace_def is_digit_def digit_value_def jsnat_def)

section \<open>Properties of the render request handler\<close>

lemma io_simps:
  "io_bind (io_call (Inl e)) f t = (Inl e, t)"
  "io_bind (io_call (Inr x)) f t = f x t"
  "io_bind (io_emit evs) g t = g () (t @ evs)"
  "io_bind (io_return x) f t = f x t"
  "io_bind (io_throw err) f t = (Inl (Thrown err), t)"
  "io_return x t = (Inr x, t)"
  "io_throw err t = (Inl (Thrown err), t)"
  "io_call r t = (r, t)"
  "io_catch m h t =
     (case m t of (Inl (Thrown err), t') \<Rightarrow> h err t' | (Inl Abort, t') \<Rightarrow> (Inl Abort, t')
      | (Inr x, t') \<Rightarrow> (Inr x, t'))"
  by (simp_all add: io_bind_def io_call_def io_emit_def io_return_def io_throw_def io_catch_def)

lemma and_then_simps:
  "and_then (Inl e) f = Inl e"
  "and_then (Inr x) f = f x"
  by (simp_all add: and_then_def)

lemma thrown_simps:
  "thrown (Inl err) = Inl (Thrown err)"
  "thrown (Inr x) = Inr x"
  by (simp_all add: thrown_def)

lemma render_content_cases:
  "render_content sv c outFile' color' fontSize' t =
     (let mc = processMathContent c;
          t1 = t @ map ConsoleLog (snd (processMathContent_io c))
                 @ [Typeset (content mc) (display mc)]
      in case convert_to_svg sv mc color' of
           Inl e \<Rightarrow> (Inl e, t1)
         | Inr svgString \<Rightarrow>
             (case rasterizer_options sv fontSize' (display mc) of
                Inl err \<Rightarrow> (Inl (Thrown err), t1)
              | Inr opts \<Rightarrow>
                  (case convert_to_png sv svgString opts of
                     Inl e \<Rightarrow> (Inl e, t1 @ [Rasterize svgString opts])
                   | Inr pngBuffer \<Rightarrow>
                       (case writeFileSync sv outFile' pngBuffer of
                          Inl e \<Rightarrow>
                            (Inl e, t1 @ [Rasterize svgString opts, WriteFile outFile' pngBuffer])
                        | Inr _ \<Rightarrow>
                            (Inr \<lparr>status = 200, json = SuccessJson outFile'\<rparr>,
                             t1 @ [Rasterize svgString opts, WriteFile outFile' pngBuffer])))))"
  by (simp add: render_content_def processMathContent_def io_simps thrown_simps Let_def
      split: prod.splits sum.splits)

lemma render_handler_missing:
  "\<not> ToBoolean (inputFile b) \<Longrightarrow>
   render_handler sv (Some b) t =
     (Inr \<lparr>status = 400, json = ErrorJson (lit ''inputFile is required'')\<rparr>, t)"
  by (simp add: render_handler_def render_try_def io_simps Let_def)

lemma render_handler_unreadable:
  "ToBoolean (inputFile b) \<Longrightarrow> readFileSync sv (inputFile b) = Inl (Thrown err) \<Longrightarrow>
   render_handler sv (Some b) t =
     (Inr \<lparr>status = 400, json = ErrorJson (lit ''Error reading input file: '' @ message err)\<rparr>,
      t @ [ReadFile (inputFile b)])"
  by (simp add: render_handler_def render_try_def io_simps Let_def)

lemma render_handler_read_abort:
  "ToBoolean (inputFile b) \<Longrightarrow> readFileSync sv (inputFile b) = Inl Abort \<Longrightarrow>
   render_handler sv (Some b) t = (Inl Abort, t @ [ReadFile (inputFile b)])"
  by (simp add: render_handler_def render_try_def io_simps Let_def)


lemma render_handler_content:
  "ToBoolean (inputFile b) \<Longrightarrow> readFileSync sv (inputFile b) = Inr raw \<Longrightarrow>
   render_handler sv (Some b) t =
     (case render_content sv (trim raw) (or_default (outFile b) (JStr (lit ''output.png'')))
             (or_default (color b) (JStr defaultColor))
             (or_default (fontSize b) (JNum defaultFontSize)) (t @ [ReadFile (inputFile b)]) of
        (Inl (Thrown err), t') \<Rightarrow>
          (Inr \<lparr>status = 500, json = ErrorJson (message err)\<rparr>, t' @ [ConsoleError err])
      | (Inl Abort, t') \<Rightarrow> (Inl Abort, t')
      | (Inr r, t') \<Rightarrow> (Inr r, t'))"
  by (simp add: render_handler_def render_try_def io_simps Let_def
      split: prod.splits sum.splits failure.splits)

lemma render_handler_cases:
  "render_handler sv (Some b) t =
     (if \<not> ToBoolean (inputFile b) then
        (Inr \<lparr>status = 400, json = ErrorJson (lit ''inputFile is required'')\<rparr>, t)
      else case readFileSync sv (inputFile b) of
        Inl (Thrown err) \<Rightarrow>
          (Inr \<lparr>status = 400,
                 json = ErrorJson (lit ''Error reading input file: '' @ message err)\<rparr>,
           t @ [ReadFile (inputFile b)])
      | Inl Abort \<Rightarrow> (Inl Abort, t @ [ReadFile (inputFile b)])
      | Inr raw \<Rightarrow>
          (case render_content sv (trim raw) (or_default (outFile b) (JStr (lit ''output.png'')))
                  (or_default (color b) (JStr defaultColor))
                  (or_default (fontSize b) (JNum defaultFontSize)) (t @ [ReadFile (inputFile b)]) of
             (Inl (Thrown err), t') \<Rightarrow>
               (Inr \<lparr>status = 500, json = ErrorJson (message err)\<rparr>, t' @ [ConsoleError err])
           | (Inl Abort, t') \<Rightarrow> (Inl Abort, t')
           | (Inr r, t') \<Rightarrow> (Inr r, t')))"
  by (simp add: render_handler_missing render_handler_unreadable render_handler_read_abort
      render_handler_content split: sum.splits failure.splits)

lemmas handler_eval =
  render_handler_cases render_content_cases convert_to_svg_def convert_to_png_def
  rasterizer_options_def and_then_simps or_default_def defaultFontSize_def defaultColor_def
  Let_def






lemma rasterize_event:
  assumes "Rasterize svg opts \<in> set (snd (render_handler sv (Some b) []))"
  shows "\<exists>raw. ToBoolean (inputFile b) \<and> readFileSync sv (inputFile b) = Inr raw
           \<and> rasterizer_options sv (or_default (fontSize b) (JNum defaultFontSize))
                (display (processMathContent (trim raw))) = Inr opts"
  using assms
  unfolding render_handler_cases render_content_cases Let_def
  by (auto split: if_splits sum.splits failure.splits)

lemma rasterizer_options_Inr:
  "rasterizer_options sv fs d = Inr opts \<Longrightarrow>
     \<exists>n. Number_js (toNumber sv) fs = Inr n
       \<and> opts = \<lparr>font = \<lparr>font_loadSystemFonts = False,
                          font_defaultFontFamily = lit ''Latin Modern Math'',
                          font_defaultFontSize = js_add n (if d then jsnat 5 else jsnat 0)\<rparr>\<rparr>"
  by (auto simp: rasterizer_options_def and_then_def split: sum.splits)

lemma is_double_jsnat: "k < 2 ^ 53 \<Longrightarrow> is_double (jsnat k)"
  by (simp add: jsnat_exact representable_scaled)

text \<open>
  Claim C5. Whenever the handler calls the rasterizer, the options it passes have system
  font loading off and the family \<^verbatim>\<open>Latin Modern Math\<close>, and the default font size is
  \<^verbatim>\<open>Number(fontSize) + 5\<close> when the normalized content is display math and
  \<^verbatim>\<open>Number(fontSize) + 0\<close> when it is inline, where \<^verbatim>\<open>fontSize\<close> is the request's, or 30
  when the request has none. Adding 5 to a whole number below \<open>2 ^ 53 - 5\<close> is exact, and
  adding 0 to a double leaves its value as it is. The rasterizer is called with these
  options whenever the file was read and typeset and \<^verbatim>\<open>Number(fontSize)\<close> returned.
\<close>

theorem C5_rasterizer_options:
  "(\<forall>svg opts. Rasterize svg opts \<in> set (snd (render_handler sv (Some b) [])) \<longrightarrow>
      (\<exists>raw n. readFileSync sv (inputFile b) = Inr raw
         \<and> Number_js (toNumber sv) (or_default (fontSize b) (JNum defaultFontSize)) = Inr n
         \<and> font_loadSystemFonts (font opts) = False
         \<and> font_defaultFontFamily (font opts) = lit ''Latin Modern Math''
         \<and> (if display (processMathContent (trim raw))
             then font_defaultFontSize (font opts) = js_add n (jsnat 5)
                  \<and> (\<forall>k. n = jsnat k \<and> k + 5 < 2 ^ 53 \<longrightarrow>
                        font_defaultFontSize (font opts) = jsnat (k + 5))
             else font_defaultFontSize (font opts) = js_add n (jsnat 0)
                  \<and> (is_double n \<longrightarrow>
                        number_value (font_defaultFontSize (font opts)) = number_value n))))
   \<and> (\<forall>raw svg opts.
         ToBoolean (inputFile b) \<and> readFileSync sv (inputFile b) = Inr raw
         \<and> convert_to_svg sv (processMathContent (trim raw))
               (or_default (color b) (JStr defaultColor)) = Inr svg
         \<and> rasterizer_options sv (or_default (fontSize b) (JNum defaultFontSize))
               (display (processMathContent (trim raw))) = Inr opts
         \<longrightarrow> Rasterize svg opts \<in> set (snd (render_handler sv (Some b) [])))"
proof (intro conjI allI impI)
  fix svg opts
  assume "Rasterize svg opts \<in> set (snd (render_handler sv (Some b) []))"
  then obtain raw where raw: "readFileSync sv (inputFile b) = Inr raw"
    and ro: "rasterizer_options sv (or_default (fontSize b) (JNum defaultFontSize))
                (display (processMathContent (trim raw))) = Inr opts"
    using rasterize_event by blast
  from rasterizer_options_Inr [OF ro] obtain n
    where n: "Number_js (toNumber sv) (or_default (fontSize b) (JNum defaultFontSize)) = Inr n"
      and opts: "opts = \<lparr>font = \<lparr>font_loadSystemFonts = False,
                    font_defaultFontFamily = lit ''Latin Modern Math'',
                    font_defaultFontSize =
                      js_add n (if display (processMathContent (trim raw))
                                then jsnat 5 else jsnat 0)\<rparr>\<rparr>"
    by blast
  show "\<exists>raw n. readFileSync sv (inputFile b) = Inr raw
         \<and> Number_js (toNumber sv) (or_default (fontSize b) (JNum defaultFontSize)) = Inr n
         \<and> font_loadSystemFonts (font opts) = False
         \<and> font_defaultFontFamily (font opts) = lit ''Latin Modern Math''
         \<and> (if display (processMathContent (trim raw))
             then font_defaultFontSize (font opts) = js_add n (jsnat 5)
                  \<and> (\<forall>k. n = jsnat k \<and> k + 5 < 2 ^ 53 \<longrightarrow>
                        font_defaultFontSize (font opts) = jsnat (k + 5))
             else font_defaultFontSize (font opts) = js_add n (jsnat 0)
                  \<and> (is_double n \<longrightarrow>
                        number_value (font_defaultFontSize (font opts)) = number_value n))"
    using raw n by (intro exI [of _ raw] exI [of _ n]) (simp add: opts js_add_jsnat js_add_zero_value)
next
  fix raw svg opts
  assume "ToBoolean (inputFile b) \<and> readFileSync sv (inputFile b) = Inr raw
         \<and> convert_to_svg sv (processMathContent (trim raw))
               (or_default (color b) (JStr defaultColor)) = Inr svg
         \<and> rasterizer_options sv (or_default (fontSize b) (JNum defaultFontSize))
               (display (processMathContent (trim raw))) = Inr opts"
  then show "Rasterize svg opts \<in> set (snd (render_handler sv (Some b) []))"
    by (simp add: render_handler_cases render_content_cases Let_def
        split: sum.splits failure.splits)
qed

theorem C5_rasterizer_options_witness:
  "Rasterize (lit ''E=mc^2'')
      \<lparr>font = \<lparr>font_loadSystemFonts = False, font_defaultFontFamily = lit ''Latin Modern Math'',
                font_defaultFontSize = jsnat 35\<rparr>\<rparr>
     \<in> set (snd (render_handler sample_services
                   (Some (request_for ''eq.tex'' JUndefined JUndefined)) []))
   \<and> display (processMathContent (trim (lit ''$$E=mc^2$$  '')))
   \<and> Rasterize (lit ''y'')
      \<lparr>font = \<lparr>font_loadSystemFonts = False, font_defaultFontFamily = lit ''Latin Modern Math'',
                font_defaultFontSize = js_add (jsnat 25) (jsnat 0)\<rparr>\<rparr>
     \<in> set (snd (render_handler sample_services
                   (Some (request_for ''iny.tex'' JUndefined (JNum (jsnat 25)))) []))
   \<and> \<not> display (processMathContent (trim (lit ''$y$'')))
   \<and> number_value (js_add (jsnat 25) (jsnat 0)) = number_value (jsnat 25)"
proof -
  let ?b1 = "request_for ''eq.tex'' JUndefined JUndefined"
  let ?b2 = "request_for ''iny.tex'' JUndefined (JNum (jsnat 25))"
  let ?o1 = "\<lparr>font = \<lparr>font_loadSystemFonts = False,
                 font_defaultFontFamily = lit ''Latin Modern Math'',
                 font_defaultFontSize = js_add (jsnat 30) (jsnat 5)\<rparr>\<rparr>"
  let ?o2 = "\<lparr>font = \<lparr>font_loadSystemFonts = False,
                 font_defaultFontFamily = lit ''Latin Modern Math'',
                 font_defaultFontSize = js_add (jsnat 25) (jsnat 0)\<rparr>\<rparr>"
  have d1: "display (processMathContent (trim (lit ''$$E=mc^2$$  '')))"
    by (simp add: eval_simps)
  have d2: "\<not> display (processMathContent (trim (lit ''$y$'')))"
    by (simp add: eval_simps)
  have r1: "readFileSync sample_services (inputFile ?b1) = Inr (lit ''$$E=mc^2$$  '')"
    by (simp add: sample_services_def request_for_def lit_simps)
  have r2: "readFileSync sample_services (inputFile ?b2) = Inr (lit ''$y$'')"
    by (simp add: sample_services_def request_for_def lit_simps)
  have m1: "Rasterize (lit ''E=mc^2'') ?o1 \<in> set (snd (render_handler sample_services (Some ?b1) []))"
    by (simp add: handler_eval request_for_def sample_services_def eval_simps)
  have m2: "Rasterize (lit ''y'') ?o2 \<in> set (snd (render_handler sample_services (Some ?b2) []))"
    by (simp add: handler_eval request_for_def sample_services_def eval_simps)
  have n1: "Number_js (toNumber sample_services) (or_default (fontSize ?b1) (JNum defaultFontSize))
              = Inr (jsnat 30)"
    by (simp add: request_for_def or_default_def defaultFontSize_def)
  have n2: "Number_js (toNumber sample_services) (or_default (fontSize ?b2) (JNum defaultFontSize))
              = Inr (jsnat 25)"
    by (simp add: request_for_def or_default_def)
  from C5_rasterizer_options [of sample_services ?b1, THEN conjunct1, rule_format, OF m1]
  obtain raw n where "readFileSync sample_services (inputFile ?b1) = Inr raw"
    and "Number_js (toNumber sample_services) (or_default (fontSize ?b1) (JNum defaultFontSize))
           = Inr n"
    and "if display (processMathContent (trim raw))
         then font_defaultFontSize (font ?o1) = js_add n (jsnat 5)
              \<and> (\<forall>k. n = jsnat k \<and> k + 5 < 2 ^ 53 \<longrightarrow>
                    font_defaultFontSize (font ?o1) = jsnat (k + 5))
         else font_defaultFontSize (font ?o1) = js_add n (jsnat 0)
              \<and> (is_double n \<longrightarrow>
                    number_value (font_defaultFontSize (font ?o1)) = number_value n)"
    by blast
  with r1 n1 d1 have "\<forall>k. jsnat 30 = jsnat k \<and> k + 5 < 2 ^ 53 \<longrightarrow>
                    font_defaultFontSize (font ?o1) = jsnat (k + 5)"
    by simp
  from this [rule_format, of 30] have s1: "font_defaultFontSize (font ?o1) = jsnat (30 + 5)"
    by simp
  from C5_rasterizer_options [of sample_services ?b2, THEN conjunct1, rule_format, OF m2]
  obtain raw' n' where "readFileSync sample_services (inputFile ?b2) = Inr raw'"
    and "Number_js (toNumber sample_services) (or_default (fontSize ?b2) (JNum defaultFontSize))
           = Inr n'"
    and "if display (processMathContent (trim raw'))
         then font_defaultFontSize (font ?o2) = js_add n' (jsnat 5)
              \<and> (\<forall>k. n' = jsnat k \<and> k + 5 < 2 ^ 53 \<longrightarrow>
                    font_defaultFontSize (font ?o2) = jsnat (k + 5))
         else font_defaultFontSize (font ?o2) = js_add n' (jsnat 0)
              \<and> (is_double n' \<longrightarrow>
                    number_value (font_defaultFontSize (font ?o2)) = number_value n')"
    by blast
  with r2 n2 d2 is_double_jsnat [of 25]
  have s2: "number_value (font_defaultFontSize (font ?o2)) = number_value (jsnat 25)"
    by simp
  from s1 have "js_add (jsnat 30) (jsnat 5) = jsnat 35" by simp
  with m1 m2 d1 d2 s2 show ?thesis by simp
qed

text \<open>
  Claim C6. When the body has no \<^verbatim>\<open>inputFile\<close> property the handler answers with
  status 400 and the message \<^verbatim>\<open>inputFile is required\<close>, which begins with the name of
  the field, and nothing is added to the record of effects: no file is read, nothing is
  typeset, rasterized or written.
\<close>

theorem C6_missing_inputFile:
  assumes "inputFile b = JUndefined"
  shows "render_handler sv (Some b) t
           = (Inr \<lparr>status = 400, json = ErrorJson (lit ''inputFile is required'')\<rparr>, t)
         \<and> prefix (lit ''inputFile'') (lit ''inputFile is required'')"
  using assms by (simp add: render_handler_missing lit_simps)

theorem C6_missing_inputFile_witness:
  "inputFile \<lparr>inputFile = JUndefined, outFile = JStr (lit ''out.png''), color = JUndefined,
              fontSize = JNum (jsnat 25)\<rparr> = JUndefined
   \<and> render_handler sample_services
        (Some \<lparr>inputFile = JUndefined, outFile = JStr (lit ''out.png''), color = JUndefined,
               fontSize = JNum (jsnat 25)\<rparr>) []
      = (Inr \<lparr>status = 400, json = ErrorJson (lit ''inputFile is required'')\<rparr>, [])"
proof -
  let ?b = "\<lparr>inputFile = JUndefined, outFile = JStr (lit ''out.png''), color = JUndefined,
              fontSize = JNum (jsnat 25)\<rparr>"
  have h: "inputFile ?b = JUndefined" by simp
  from C6_missing_inputFile [OF h, of sample_services "[]"] h show ?thesis by blast
qed





section \<open>Properties of starting the server\<close>

lemma startServer_alive:
  assumes "files w (PID_FILE pf) = Some recorded" and "process_kill0 pf (parseInt recorded)"
  shows "startServer pf macrosFile w
           = (Returned, w\<lparr>console := console w @ [ServerAlreadyRunning (parseInt recorded)]\<rparr>)"
  using assms
  by (simp add: startServer_def fs_existsSync_def fs_readFileSync_def console_write_def)

lemma startServer_stale:
  assumes "files w (PID_FILE pf) = Some recorded" and "\<not> process_kill0 pf (parseInt recorded)"
  shows "startServer pf macrosFile w
           = start_fresh pf macrosFile (w\<lparr>files := (files w)(PID_FILE pf := None)\<rparr>)"
  using assms
  by (simp add: startServer_def fs_existsSync_def fs_readFileSync_def fs_unlinkSync_def)

lemma start_fresh_files: "files (snd (start_fresh pf macrosFile w)) = files w"
  by (simp add: start_fresh_def console_write_def split: option.splits sum.splits)

lemma start_fresh_not_Returned: "fst (start_fresh pf macrosFile w) \<noteq> Returned"
  by (simp add: start_fresh_def split: option.splits sum.splits)

text \<open>
  Claim C8. When the record file exists and \<^verbatim>\<open>process.kill(pid, 0)\<close> returns for the
  process id read from it, \<^verbatim>\<open>startServer\<close> writes the already-running line and
  returns: MathJax is not initialized and no file changes. When the probe throws,
  \<^verbatim>\<open>startServer\<close> is the fresh start run on the files without the record file; the
  record file stays deleted and \<^verbatim>\<open>startServer\<close> does not return at once.
\<close>

theorem C8_startServer_record_file:
  assumes "files w (PID_FILE pf) = Some recorded"
  shows "(process_kill0 pf (parseInt recorded) \<longrightarrow>
            fst (startServer pf macrosFile w) = Returned
            \<and> files (snd (startServer pf macrosFile w)) = files w
            \<and> console (snd (startServer pf macrosFile w))
                = console w @ [ServerAlreadyRunning (parseInt recorded)])
       \<and> (\<not> process_kill0 pf (parseInt recorded) \<longrightarrow>
            startServer pf macrosFile w
              = start_fresh pf macrosFile (w\<lparr>files := (files w)(PID_FILE pf := None)\<rparr>)
            \<and> files (snd (startServer pf macrosFile w)) = (files w)(PID_FILE pf := None)
            \<and> fst (startServer pf macrosFile w) \<noteq> Returned)"
  using assms
  by (simp add: startServer_alive startServer_stale start_fresh_files start_fresh_not_Returned)

theorem C8_startServer_record_file_witness:
  "files sample_world (PID_FILE (sample_platform True)) = Some (lit ''4242'')
   \<and> process_kill0 (sample_platform True) (parseInt (lit ''4242''))
   \<and> startServer (sample_platform True) None sample_world
       = (Returned, sample_world\<lparr>console := [ServerAlreadyRunning (jsnat 4242)]\<rparr>)
   \<and> files sample_world (PID_FILE (sample_platform False)) = Some (lit ''4242'')
   \<and> \<not> process_kill0 (sample_platform False) (parseInt (lit ''4242''))
   \<and> startServer (sample_platform False) None sample_world
       = (MathJaxInit (init_config JUndefined),
          sample_world\<lparr>files := [lit ''macros.json'' \<mapsto> macros_text]\<rparr>)"
proof -
  have p: "parseInt (lit ''4242'') = jsnat 4242" by (rule parseInt_example)
  have ne: "lit ''/opt/tex2png/tex2png-server.pid'' \<noteq> lit ''macros.json''"
    by (simp add: lit_simps)
  have h1: "files sample_world (PID_FILE (sample_platform True)) = Some (lit ''4242'')"
    and h2: "files sample_world (PID_FILE (sample_platform False)) = Some (lit ''4242'')"
    using ne by (simp_all add: sample_world_def sample_platform_def)
  have k1: "process_kill0 (sample_platform True) (parseInt (lit ''4242''))"
    and k2: "\<not> process_kill0 (sample_platform False) (parseInt (lit ''4242''))"
    by (simp_all add: sample_platform_def p)
  have del: "(files sample_world)(PID_FILE (sample_platform False) := None)
               = [lit ''macros.json'' \<mapsto> macros_text]"
    using ne by (auto simp: sample_world_def sample_platform_def)
  from C8_startServer_record_file [OF h1, of None] k1
  have a: "startServer (sample_platform True) None sample_world
       = (Returned, sample_world\<lparr>console := [ServerAlreadyRunning (jsnat 4242)]\<rparr>)"
    by (simp add: p prod_eq_iff sample_world_def)
  from C8_startServer_record_file [OF h2, of None] k2
  have b: "startServer (sample_platform False) None sample_world
       = (MathJaxInit (init_config JUndefined),
          sample_world\<lparr>files := [lit ''macros.json'' \<mapsto> macros_text]\<rparr>)"
    by (simp add: start_fresh_def del)
  from a b h1 h2 k1 k2 show ?thesis by simp
qed

section \<open>Properties of the object spread\<close>

lemma fold_update_lookup:
  "distinct (map fst xs) \<Longrightarrow>
   map_of (fold (\<lambda>(k, v). AList.update k v) xs base) name =
     (case map_of xs name of Some d \<Rightarrow> Some d | None \<Rightarrow> map_of base name)"
proof (induction xs arbitrary: base)
  case Nil
  then show ?case by simp
next
  case (Cons x xs)
  obtain k v where x: "x = (k, v)" by (cases x)
  from Cons.prems have k: "map_of xs k = None" and d: "distinct (map fst xs)"
    by (simp_all add: x map_of_eq_None_iff)
  show ?case
    using k by (simp add: x Cons.IH [OF d] update_conv' split: option.splits)
qed

lemma spread_lookup:
  "distinct (map fst (ownEnumerable source)) \<Longrightarrow>
   map_of (spread target source) name =
     (case get_own source name of Some d \<Rightarrow> Some d | None \<Rightarrow> map_of target name)"
  by (simp add: spread_def get_own_def fold_update_lookup)

lemma defaultMacros_distinct: "distinct (map fst (ownEnumerable defaultMacros))"
  by (simp add: defaultMacros_def lit_simps)

lemma tex_macros_lookup:
  assumes "distinct (map fst (ownEnumerable customMacros))"
  shows "get_own (tex_macros (init_config customMacros)) name =
     (case get_own customMacros name of Some d \<Rightarrow> Some d | None \<Rightarrow> get_own defaultMacros name)"
proof -
  have "map_of (spread [] defaultMacros) name = get_own defaultMacros name"
    by (simp add: spread_lookup [OF defaultMacros_distinct] split: option.splits)
  then show ?thesis
    by (simp add: init_config_def get_own_def spread_lookup [OF assms] split: option.splits)
qed

text \<open>
  Claim C10. For a macros file that parses to an object, each macro the object defines
  is, under its name, in the merged macros of the configuration with the user's
  definition (so a user \<^verbatim>\<open>bm\<close> or \<^verbatim>\<open>tag\<close> replaces the built-in one), and each name the
  object does not define has what the built-in macros have for it. This merged
  configuration is the one \<^verbatim>\<open>startServer\<close> hands to MathJax after reading the file.
\<close>

theorem C10_user_macros_override:
  assumes "distinct (map fst user)"
  shows "(\<forall>name d. get_own (JObj user) name = Some d \<longrightarrow>
            get_own (tex_macros (init_config (JObj user))) name = Some d)
       \<and> (\<forall>name. get_own (JObj user) name = None \<longrightarrow>
            get_own (tex_macros (init_config (JObj user))) name = get_own defaultMacros name)
       \<and> (\<forall>w f content. f \<noteq> [] \<and> files w f = Some content \<and> JSON_parse pf content = Inr (JObj user) \<longrightarrow>
            fst (start_fresh pf (Some f) w) = MathJaxInit (init_config (JObj user)))"
proof -
  have d: "distinct (map fst (ownEnumerable (JObj user)))" using assms by simp
  show ?thesis
    by (auto simp: tex_macros_lookup [OF d] start_fresh_def fs_existsSync_def fs_readFileSync_def
        and_then_def)
qed

theorem C10_user_macros_override_witness:
  "distinct (map fst user_bm)
   \<and> get_own (JObj user_bm) (lit ''bm'')
       = Some (JArr [JStr (lit (backslash # ''mathbf{#1}'')), JNum (jsnat 1)])
   \<and> get_own (tex_macros (init_config (JObj user_bm))) (lit ''bm'')
       = Some (JArr [JStr (lit (backslash # ''mathbf{#1}'')), JNum (jsnat 1)])
   \<and> get_own (JObj user_bm) (lit ''tag'') = None
   \<and> get_own (tex_macros (init_config (JObj user_bm))) (lit ''tag'')
       = Some (JArr [JStr (lit (backslash # ''qquad ('' @ backslash # ''mathrm{#1})'')),
                     JNum (jsnat 1)])
   \<and> lit ''macros.json'' \<noteq> []
   \<and> files sample_world (lit ''macros.json'') = Some macros_text
   \<and> JSON_parse (sample_platform False) macros_text = Inr (JObj user_bm)
   \<and> fst (start_fresh (sample_platform False) (Some (lit ''macros.json'')) sample_world)
       = MathJaxInit (init_config (JObj user_bm))"
proof -
  have h: "distinct (map fst user_bm)" by (simp add: user_bm_def lit_simps)
  have bm: "get_own (JObj user_bm) (lit ''bm'')
       = Some (JArr [JStr (lit (backslash # ''mathbf{#1}'')), JNum (jsnat 1)])"
    by (simp add: get_own_def user_bm_def lit_simps)
  have tag: "get_own (JObj user_bm) (lit ''tag'') = None"
    by (simp add: get_own_def user_bm_def lit_simps)
  have dflt: "get_own defaultMacros (lit ''tag'')
       = Some (JArr [JStr (lit (backslash # ''qquad ('' @ backslash # ''mathrm{#1})'')),
                     JNum (jsnat 1)])"
    by (simp add: get_own_def defaultMacros_def lit_simps)
  have f: "lit ''macros.json'' \<noteq> []" by (simp add: lit_simps)
  have c: "files sample_world (lit ''macros.json'') = Some macros_text"
    by (simp add: sample_world_def lit_simps)
  have p: "JSON_parse (sample_platform False) macros_text = Inr (JObj user_bm)"
    by (simp add: sample_platform_def)
  note all = C10_user_macros_override [OF h, of "sample_platform False"]
  from all have a1: "get_own (tex_macros (init_config (JObj user_bm))) (lit ''bm'')
       = Some (JArr [JStr (lit (backslash # ''mathbf{#1}'')), JNum (jsnat 1)])"
    using bm by blast
  from all have a2: "get_own (tex_macros (init_config (JObj user_bm))) (lit ''tag'')
       = get_own defaultMacros (lit ''tag'')"
    using tag by blast
  from all have a3: "fst (start_fresh (sample_platform False) (Some (lit ''macros.json''))
       sample_world) = MathJaxInit (init_config (JObj user_bm))"
    using f c p by blast
  from h bm tag f c p a1 a2 a3 dflt show ?thesis by simp
qed

end
